theory Spec2Isabelle
  imports Complex_Main
begin

section \<open>Arrays and masked arrays\<close>

text \<open>
  The facade \<^verbatim>\<open>smo/api.py\<close> works on numpy arrays. An array is its shape together
  with its elements in row-major order; a masked array carries in addition one boolean per
  element (\<open>True\<close> = excluded). Intensities and probabilities are modelled as real
  numbers: rounding and NaN are outside this model. A masked array whose mask is numpy's
  \<^verbatim>\<open>nomask\<close> is represented by a mask that is \<open>False\<close> everywhere.
\<close>

record ndarray =
  shape :: "nat list"
  data :: "real list"

record masked_array = ndarray +
  mask_arr :: "bool list"

text \<open>The argument of every method: \<^verbatim>\<open>np.ndarray | np.ma.MaskedArray\<close>.\<close>

datatype image = Plain ndarray | Masked masked_array

fun image_ndim :: "image \<Rightarrow> nat" where
  "image_ndim (Plain a) = length (shape a)"
| "image_ndim (Masked m) = length (shape m)"

text \<open>
  The exceptions a call can end with. \<open>DimensionMismatch\<close> is the \<^verbatim>\<open>ValueError\<close>
  raised by \<^verbatim>\<open>_check_image\<close> (it carries the two ranks of its message);
  \<open>ZeroSizeReduction\<close> is the \<^verbatim>\<open>ValueError\<close> numpy raises for the maximum of an
  array without elements; \<open>CoreError\<close> stands for whatever the imported functions raise.
\<close>

datatype error = DimensionMismatch nat nat | ZeroSizeReduction | CoreError nat

text \<open>\<^verbatim>\<open>image.max()\<close>: numpy refuses the reduction on a zero-size array.\<close>

definition ndarray_max :: "ndarray \<Rightarrow> error + real" where
  "ndarray_max a =
     (case data a of [] \<Rightarrow> Inl ZeroSizeReduction | x # xs \<Rightarrow> Inr (fold max xs x))"

text \<open>
  \<^verbatim>\<open>np.ma.masked_greater_equal(image, saturation)\<close>: a masked view of a copy of the
  array, masked where the element is greater than or equal to the given value.
\<close>

definition masked_greater_equal :: "ndarray \<Rightarrow> real \<Rightarrow> masked_array" where
  "masked_greater_equal a v =
     \<lparr>shape = shape a, data = data a, mask_arr = map (\<lambda>x. v \<le> x) (data a)\<rparr>"

section \<open>Distributions and the imported core\<close>

text \<open>
  A continuous random variable (\<^verbatim>\<open>scipy.stats.rv_continuous\<close>) is used only through
  its two queries, both pure.
\<close>

record rv_continuous =
  cdf :: "real \<Rightarrow> real"
  ppf :: "real \<Rightarrow> real"

text \<open>
  A numpy random generator (the argument \<^verbatim>\<open>random_state\<close>), identified by the state
  of its bit generator.
\<close>

datatype generator = Generator nat

text \<open>
  The functions \<^verbatim>\<open>smo\<close>, \<^verbatim>\<open>smo_rv\<close> (module \<^verbatim>\<open>smo.smo\<close>),
  \<^verbatim>\<open>bg_mask\<close> and \<^verbatim>\<open>bg_rv\<close> (module \<^verbatim>\<open>smo.background\<close>) are imported by
  the facade; their code is not part of the sources at hand, so the facade is modelled
  over any four functions of the right types. Each may raise, and none mutates its
  arguments.
\<close>

record core =
  core_smo :: "masked_array \<Rightarrow> real \<Rightarrow> int \<Rightarrow> error + masked_array"
  core_smo_rv :: "nat list \<Rightarrow> real \<Rightarrow> int \<Rightarrow> generator option \<Rightarrow> error + rv_continuous"
  core_bg_mask :: "masked_array \<Rightarrow> real \<Rightarrow> int \<Rightarrow> real \<Rightarrow> error + masked_array"
  core_bg_rv :: "masked_array \<Rightarrow> real \<Rightarrow> int \<Rightarrow> real \<Rightarrow> error + rv_continuous"

section \<open>The class \<^verbatim>\<open>SMO\<close>\<close>

text \<open>The attributes of an instance (\<^verbatim>\<open>self.size\<close> is the field \<open>size_param\<close>).\<close>

record SMO =
  sigma :: real
  size_param :: int
  ndim :: nat
  smo_rv :: rv_continuous

text \<open>
  \<^verbatim>\<open>SMO.__init__\<close>: three attributes are stored, then the null distribution is
  calibrated; if the calibration raises, no object exists.
\<close>

definition SMO_init ::
  "core \<Rightarrow> real \<Rightarrow> int \<Rightarrow> nat list \<Rightarrow> generator option \<Rightarrow> error + SMO" where
  "SMO_init c sigma0 size0 shape0 random_state =
     (case core_smo_rv c shape0 sigma0 size0 random_state of
        Inl e \<Rightarrow> Inl e
      | Inr rv \<Rightarrow>
          Inr \<lparr>sigma = sigma0, size_param = size0, ndim = length shape0, smo_rv = rv\<rparr>)"

subsection \<open>Calls, state and exceptions\<close>

text \<open>
  A method runs on a state: the instance \<open>self\<close> and the log of the calls that have left
  the facade so far (the imported functions and the queries of the null distribution,
  each with its arguments, in the order they were made). A method returns its result, or
  the exception it raised, together with the state it leaves behind.
\<close>

datatype event =
    Call_smo masked_array real int
  | Call_bg_mask masked_array real int real
  | Call_bg_rv masked_array real int real
  | Call_ppf real
  | Call_cdf "real list"

record state =
  self :: SMO
  calls :: "event list"

type_synonym 'r action = "state \<Rightarrow> (error + 'r) \<times> state"

definition ret :: "'r \<Rightarrow> 'r action" where
  "ret x st = (Inr x, st)"

definition raise :: "error \<Rightarrow> 'r action" where
  "raise e st = (Inl e, st)"

text \<open>Sequencing: an exception ends the method at once.\<close>

definition bind_m :: "'a action \<Rightarrow> ('a \<Rightarrow> 'b action) \<Rightarrow> 'b action" where
  "bind_m f g st =
     (case f st of (Inl e, st') \<Rightarrow> (Inl e, st') | (Inr x, st') \<Rightarrow> g x st')"

definition get_self :: "SMO action" where
  "get_self st = (Inr (self st), st)"

text \<open>An outgoing call: it is logged when it is made, and its outcome is returned.\<close>

definition call :: "event \<Rightarrow> error + 'r \<Rightarrow> 'r action" where
  "call ev outcome st = (outcome, st\<lparr>calls := calls st @ [ev]\<rparr>)"

subsection \<open>The methods\<close>

text \<open>
  \<^verbatim>\<open>SMO._check_image\<close>: the rank is compared first; a masked array is returned as
  it is; a plain array is masked at its maximum.
\<close>

definition check_image :: "image \<Rightarrow> masked_array action" where
  "check_image img =
     bind_m get_self (\<lambda>s.
       if image_ndim img \<noteq> ndim s
       then raise (DimensionMismatch (image_ndim img) (ndim s))
       else (case img of
               Masked m \<Rightarrow> ret m
             | Plain a \<Rightarrow>
                 (case ndarray_max a of
                    Inl e \<Rightarrow> raise e
                  | Inr saturation \<Rightarrow> ret (masked_greater_equal a saturation))))"

text \<open>\<^verbatim>\<open>SMO.smo_image\<close>.\<close>

definition SMO_smo_image :: "core \<Rightarrow> image \<Rightarrow> masked_array action" where
  "SMO_smo_image c img =
     bind_m (check_image img) (\<lambda>img'.
     bind_m get_self (\<lambda>s.
       call (Call_smo img' (sigma s) (size_param s))
            (core_smo c img' (sigma s) (size_param s))))"

text \<open>
  \<^verbatim>\<open>SMO.smo_probability\<close>: the null distribution's \<^verbatim>\<open>cdf\<close> is applied to the data
  of the SMO image (numpy applies it to every element), and the result is wrapped with
  the SMO image's mask.
\<close>

definition SMO_smo_probability :: "core \<Rightarrow> image \<Rightarrow> masked_array action" where
  "SMO_smo_probability c img =
     bind_m (SMO_smo_image c img) (\<lambda>img'.
     bind_m get_self (\<lambda>s.
     bind_m (call (Call_cdf (data img')) (Inr (map (cdf (smo_rv s)) (data img')))) (\<lambda>prob.
       ret \<lparr>shape = shape img', data = prob, mask_arr = mask_arr img'\<rparr>)))"

text \<open>
  \<^verbatim>\<open>SMO.bg_mask\<close> and \<^verbatim>\<open>SMO.bg_rv\<close>: the arguments of the imported function are
  evaluated first (among them \<^verbatim>\<open>self.smo_rv.ppf(threshold)\<close>), then it is called.
\<close>

definition SMO_bg_mask :: "core \<Rightarrow> image \<Rightarrow> real \<Rightarrow> masked_array action" where
  "SMO_bg_mask c img threshold =
     bind_m (check_image img) (\<lambda>img'.
     bind_m get_self (\<lambda>s.
     bind_m (call (Call_ppf threshold) (Inr (ppf (smo_rv s) threshold))) (\<lambda>t.
       call (Call_bg_mask img' (sigma s) (size_param s) t)
            (core_bg_mask c img' (sigma s) (size_param s) t))))"

definition SMO_bg_rv :: "core \<Rightarrow> image \<Rightarrow> real \<Rightarrow> rv_continuous action" where
  "SMO_bg_rv c img threshold =
     bind_m (check_image img) (\<lambda>img'.
     bind_m get_self (\<lambda>s.
     bind_m (call (Call_ppf threshold) (Inr (ppf (smo_rv s) threshold))) (\<lambda>t.
       call (Call_bg_rv img' (sigma s) (size_param s) t)
            (core_bg_rv c img' (sigma s) (size_param s) t))))"

text \<open>
  \<^verbatim>\<open>SMO.bg_probability\<close>: the checked image is handed to \<^verbatim>\<open>self.bg_rv\<close> (which
  checks it again), and the \<^verbatim>\<open>cdf\<close> of the distribution that comes back is applied
  to the data of the checked image.
\<close>

definition SMO_bg_probability :: "core \<Rightarrow> image \<Rightarrow> real \<Rightarrow> masked_array action" where
  "SMO_bg_probability c img threshold =
     bind_m (check_image img) (\<lambda>img'.
     bind_m (SMO_bg_rv c (Masked img') threshold) (\<lambda>rv.
       ret \<lparr>shape = shape img', data = map (cdf rv) (data img'),
            mask_arr = mask_arr img'\<rparr>))"

section \<open>Observations on results and logs\<close>

text \<open>The positions a masked array leaves unmasked, in increasing order.\<close>

definition unmasked :: "masked_array \<Rightarrow> nat list" where
  "unmasked m = filter (\<lambda>i. \<not> mask_arr m ! i) [0..<length (mask_arr m)]"

text \<open>The valid data of a masked array (numpy's \<^verbatim>\<open>compressed()\<close>).\<close>

definition compressed :: "masked_array \<Rightarrow> real list" where
  "compressed m = map fst (filter (\<lambda>(x, b). \<not> b) (zip (data m) (mask_arr m)))"

text \<open>
  The mask an input comes with, position by position (numpy's
  \<^verbatim>\<open>np.ma.getmaskarray\<close>): a plain array has none, so nothing is excluded.
\<close>

fun image_mask :: "image \<Rightarrow> bool list" where
  "image_mask (Plain a) = replicate (length (data a)) False"
| "image_mask (Masked m) = mask_arr m"

text \<open>The field a logged call handed to an imported function, if it is such a call.\<close>

fun core_field :: "event \<Rightarrow> masked_array option" where
  "core_field (Call_smo m s z) = Some m"
| "core_field (Call_bg_mask m s z t) = Some m"
| "core_field (Call_bg_rv m s z t) = Some m"
| "core_field (Call_ppf p) = None"
| "core_field (Call_cdf xs) = None"

definition core_fields :: "state \<Rightarrow> masked_array list" where
  "core_fields st = List.map_filter core_field (calls st)"

fun is_ppf :: "event \<Rightarrow> bool" where
  "is_ppf (Call_ppf p) = True"
| "is_ppf (Call_smo m s z) = False"
| "is_ppf (Call_bg_mask m s z t) = False"
| "is_ppf (Call_bg_rv m s z t) = False"
| "is_ppf (Call_cdf xs) = False"

section \<open>The imported functions, as far as the specification describes them\<close>

text \<open>
  Modelled from the spec: \<^verbatim>\<open>smo.background.bg_mask\<close> is missing from the sources.
  The specification (section 4.3) describes it: the SMO transform of the field is
  compared with the cutoff; the result is the field with a pixel unmasked exactly when
  the input leaves it unmasked and its SMO value is at or below the cutoff. The
  transform itself is not specified and stays a parameter; by its contract (section 4.1)
  its output has the shape of its input.
\<close>

definition bg_mask_spec ::
  "(masked_array \<Rightarrow> real \<Rightarrow> int \<Rightarrow> error + masked_array) \<Rightarrow>
   masked_array \<Rightarrow> real \<Rightarrow> int \<Rightarrow> real \<Rightarrow> error + masked_array" where
  "bg_mask_spec smo input sigma0 size0 threshold =
     (case smo input sigma0 size0 of
        Inl e \<Rightarrow> Inl e
      | Inr smo_image \<Rightarrow>
          Inr \<lparr>shape = shape input, data = data input,
               mask_arr = map2 (\<lambda>excluded v. excluded \<or> \<not> v \<le> threshold)
                            (mask_arr input) (data smo_image)\<rparr>)"

text \<open>
  Modelled from the spec: the null distribution is built by code that is missing from the
  sources (\<^verbatim>\<open>smo_rv\<close>, on a \<^verbatim>\<open>scipy\<close> histogram distribution). The
  specification (section 3) calls its \<^verbatim>\<open>ppf\<close> the inverse CDF, or quantile function,
  of a distribution on probabilities in \<open>[0, 1]\<close>; a quantile function does not decrease.
\<close>

definition quantile_monotone :: "rv_continuous \<Rightarrow> bool" where
  "quantile_monotone rv \<longleftrightarrow> (\<forall>p q. 0 \<le> p \<and> p \<le> q \<and> q \<le> 1 \<longrightarrow> ppf rv p \<le> ppf rv q)"

section \<open>A concrete instance\<close>

text \<open>
  An instance on which the theorems below are exercised: the uniform distribution on
  \<open>[0, 1]\<close>, a transform that returns its input, and an object for fields of rank 1.
\<close>

definition uniform_rv :: rv_continuous where
  "uniform_rv = \<lparr>cdf = (\<lambda>x. max 0 (min 1 x)), ppf = (\<lambda>p. p)\<rparr>"

definition sample_core :: core where
  "sample_core =
     \<lparr>core_smo = (\<lambda>m s z. Inr m),
      core_smo_rv = (\<lambda>sh s z g. Inr uniform_rv),
      core_bg_mask = bg_mask_spec (\<lambda>m s z. Inr m),
      core_bg_rv = (\<lambda>m s z t. Inr uniform_rv)\<rparr>"

definition sample_SMO :: SMO where
  "sample_SMO = \<lparr>sigma = 1, size_param = 3, ndim = 1, smo_rv = uniform_rv\<rparr>"

definition sample_state :: state where
  "sample_state = \<lparr>self = sample_SMO, calls = []\<rparr>"

section \<open>Basic facts about the check and the methods\<close>


lemma fold_max_Max: "fold max xs (x::real) = Max (set (x # xs))"
  by (rule Max.set_eq_fold [symmetric])

lemma check_image_mismatch:
  "image_ndim img \<noteq> ndim (self st) \<Longrightarrow>
   check_image img st = (Inl (DimensionMismatch (image_ndim img) (ndim (self st))), st)"
  by (simp add: check_image_def bind_m_def get_self_def raise_def)

lemma check_image_Masked:
  "length (shape m) = ndim (self st) \<Longrightarrow> check_image (Masked m) st = (Inr m, st)"
  by (simp add: check_image_def bind_m_def get_self_def ret_def)

lemma check_image_Plain_empty:
  "length (shape a) = ndim (self st) \<Longrightarrow> data a = [] \<Longrightarrow>
   check_image (Plain a) st = (Inl ZeroSizeReduction, st)"
  by (simp add: check_image_def bind_m_def get_self_def raise_def ndarray_max_def)

lemma check_image_Plain:
  "length (shape a) = ndim (self st) \<Longrightarrow> data a \<noteq> [] \<Longrightarrow>
   check_image (Plain a) st = (Inr (masked_greater_equal a (Max (set (data a)))), st)"
  by (cases "data a")
    (simp_all add: check_image_def bind_m_def get_self_def ret_def ndarray_max_def
      fold_max_Max)

lemma check_image_state: "snd (check_image img st) = st"
  by (cases img)
    (simp_all add: check_image_def bind_m_def get_self_def ret_def raise_def
      split: sum.splits list.splits)

lemma check_image_run: "check_image img st = (fst (check_image img st), st)"
  using check_image_state [of img st] by (simp add: prod_eq_iff)

lemma check_image_rank:
  "fst (check_image img st) = Inr m \<Longrightarrow> length (shape m) = ndim (self st)"
  by (cases img)
    (auto simp add: check_image_def bind_m_def get_self_def ret_def raise_def
      masked_greater_equal_def split: sum.splits if_splits)

subsection \<open>What each method does after the check\<close>

lemma smo_image_run:
  "SMO_smo_image c img st =
     (case fst (check_image img st) of
        Inl e \<Rightarrow> (Inl e, st)
      | Inr m \<Rightarrow>
          (core_smo c m (sigma (self st)) (size_param (self st)),
           st\<lparr>calls := calls st @ [Call_smo m (sigma (self st)) (size_param (self st))]\<rparr>))"
  unfolding SMO_smo_image_def bind_m_def
  by (subst check_image_run) (simp add: get_self_def call_def split: sum.splits)

lemma bg_mask_run:
  "SMO_bg_mask c img p st =
     (case fst (check_image img st) of
        Inl e \<Rightarrow> (Inl e, st)
      | Inr m \<Rightarrow>
          (core_bg_mask c m (sigma (self st)) (size_param (self st)) (ppf (smo_rv (self st)) p),
           st\<lparr>calls := calls st @
             [Call_ppf p,
              Call_bg_mask m (sigma (self st)) (size_param (self st))
                (ppf (smo_rv (self st)) p)]\<rparr>))"
  unfolding SMO_bg_mask_def bind_m_def
  by (subst check_image_run) (simp add: get_self_def call_def split: sum.splits)

lemma bg_rv_run:
  "SMO_bg_rv c img p st =
     (case fst (check_image img st) of
        Inl e \<Rightarrow> (Inl e, st)
      | Inr m \<Rightarrow>
          (core_bg_rv c m (sigma (self st)) (size_param (self st)) (ppf (smo_rv (self st)) p),
           st\<lparr>calls := calls st @
             [Call_ppf p,
              Call_bg_rv m (sigma (self st)) (size_param (self st))
                (ppf (smo_rv (self st)) p)]\<rparr>))"
  unfolding SMO_bg_rv_def bind_m_def
  by (subst check_image_run) (simp add: get_self_def call_def split: sum.splits)

lemma smo_probability_run:
  "SMO_smo_probability c img st =
     (case fst (check_image img st) of
        Inl e \<Rightarrow> (Inl e, st)
      | Inr m \<Rightarrow>
          (case core_smo c m (sigma (self st)) (size_param (self st)) of
             Inl e \<Rightarrow>
               (Inl e,
                st\<lparr>calls := calls st @ [Call_smo m (sigma (self st)) (size_param (self st))]\<rparr>)
           | Inr s \<Rightarrow>
               (Inr \<lparr>shape = shape s, data = map (cdf (smo_rv (self st))) (data s),
                     mask_arr = mask_arr s\<rparr>,
                st\<lparr>calls := calls st @
                  [Call_smo m (sigma (self st)) (size_param (self st)),
                   Call_cdf (data s)]\<rparr>)))"
  unfolding SMO_smo_probability_def bind_m_def smo_image_run
  by (simp add: get_self_def call_def ret_def split: sum.splits)

lemma bg_probability_run:
  "SMO_bg_probability c img p st =
     (case fst (check_image img st) of
        Inl e \<Rightarrow> (Inl e, st)
      | Inr m \<Rightarrow>
          (case core_bg_rv c m (sigma (self st)) (size_param (self st))
                  (ppf (smo_rv (self st)) p) of
             Inl e \<Rightarrow>
               (Inl e,
                st\<lparr>calls := calls st @
                  [Call_ppf p,
                   Call_bg_rv m (sigma (self st)) (size_param (self st))
                     (ppf (smo_rv (self st)) p)]\<rparr>)
           | Inr rv \<Rightarrow>
               (Inr \<lparr>shape = shape m, data = map (cdf rv) (data m), mask_arr = mask_arr m\<rparr>,
                st\<lparr>calls := calls st @
                  [Call_ppf p,
                   Call_bg_rv m (sigma (self st)) (size_param (self st))
                     (ppf (smo_rv (self st)) p)]\<rparr>)))"
proof (cases "fst (check_image img st)")
  case (Inl e)
  then show ?thesis
    unfolding SMO_bg_probability_def bind_m_def
    by (subst check_image_run) simp
next
  case (Inr m)
  then have "length (shape m) = ndim (self st)"
    by (rule check_image_rank)
  then have "fst (check_image (Masked m) st) = Inr m"
    by (simp add: check_image_Masked)
  with Inr show ?thesis
    unfolding SMO_bg_probability_def bind_m_def bg_rv_run
    by (subst check_image_run) (simp add: ret_def split: sum.splits)
qed

subsection \<open>The instance is read, never written\<close>


lemma check_image_self:
  "self st' = self st \<Longrightarrow> fst (check_image img st') = fst (check_image img st)"
  by (cases img)
    (simp_all add: check_image_def bind_m_def get_self_def ret_def raise_def
      split: sum.splits list.splits)

lemma smo_image_self: "self (snd (SMO_smo_image c img st)) = self st"
  by (simp add: smo_image_run split: sum.splits)

lemma smo_probability_self: "self (snd (SMO_smo_probability c img st)) = self st"
  by (simp add: smo_probability_run split: sum.splits)

lemma bg_mask_self: "self (snd (SMO_bg_mask c img p st)) = self st"
  by (simp add: bg_mask_run split: sum.splits)

lemma bg_rv_self: "self (snd (SMO_bg_rv c img p st)) = self st"
  by (simp add: bg_rv_run split: sum.splits)

lemma bg_probability_self: "self (snd (SMO_bg_probability c img p st)) = self st"
  by (simp add: bg_probability_run split: sum.splits)

lemma smo_probability_result_self:
  assumes "self st' = self st"
  shows "fst (SMO_smo_probability c img st') = fst (SMO_smo_probability c img st)"
  using assms check_image_self [OF assms, of img]
  by (simp add: smo_probability_run split: sum.splits)

subsection \<open>The field that passes the check\<close>

lemma check_image_ok_cases:
  assumes "fst (check_image img st) = Inr m"
  shows "case img of
           Masked m0 \<Rightarrow> m = m0
         | Plain a \<Rightarrow> data a \<noteq> [] \<and> m = masked_greater_equal a (Max (set (data a)))"
proof -
  have rank: "image_ndim img = ndim (self st)"
    using assms check_image_mismatch [of img st] by (cases "image_ndim img = ndim (self st)") auto
  show ?thesis
  proof (cases img)
    case (Masked m0)
    with rank assms show ?thesis by (simp add: check_image_Masked)
  next
    case (Plain a)
    show ?thesis
    proof (cases "data a = []")
      case True
      with Plain rank assms show ?thesis by (simp add: check_image_Plain_empty)
    next
      case False
      with Plain rank assms show ?thesis by (simp add: check_image_Plain)
    qed
  qed
qed

lemma core_fields_append:
  "core_fields (st\<lparr>calls := calls st @ evs\<rparr>) =
     core_fields st @ List.map_filter core_field evs"
  by (simp add: core_fields_def List.map_filter_def)

lemma masked_greater_equal_Max:
  assumes "i < length (data a)"
  shows "mask_arr (masked_greater_equal a (Max (set (data a)))) ! i =
           (Max (set (data a)) \<le> data a ! i)"
    and "(Max (set (data a)) \<le> data a ! i) = (data a ! i = Max (set (data a)))"
proof -
  show "mask_arr (masked_greater_equal a (Max (set (data a)))) ! i =
           (Max (set (data a)) \<le> data a ! i)"
    using assms by (simp add: masked_greater_equal_def)
  have "data a ! i \<in> set (data a)"
    using assms by simp
  then have "data a ! i \<le> Max (set (data a))"
    by simp
  then show "(Max (set (data a)) \<le> data a ! i) = (data a ! i = Max (set (data a)))"
    by auto
qed


lemma checked_field_passed:
  assumes "check_image img st = (Inr m, st)"
  shows "core_fields (snd (SMO_smo_image c img st)) = core_fields st @ [m]
       \<and> core_fields (snd (SMO_smo_probability c img st)) = core_fields st @ [m]
       \<and> core_fields (snd (SMO_bg_mask c img p st)) = core_fields st @ [m]
       \<and> core_fields (snd (SMO_bg_rv c img p st)) = core_fields st @ [m]
       \<and> core_fields (snd (SMO_bg_probability c img p st)) = core_fields st @ [m]"
  using assms
  by (simp add: smo_image_run smo_probability_run bg_mask_run bg_rv_run
      bg_probability_run core_fields_append List.map_filter_def split: sum.splits)

lemma all_True_unmasked: "mask_arr m = replicate n True \<Longrightarrow> unmasked m = []"
  by (simp add: unmasked_def filter_empty_conv)

lemma all_True_compressed: "mask_arr m = replicate n True \<Longrightarrow> compressed m = []"
  by (auto simp add: compressed_def filter_empty_conv dest!: set_zip_rightD)

subsection \<open>Thresholds of the background test\<close>

lemma filter_length_mono:
  "(\<And>x. x \<in> set xs \<Longrightarrow> P x \<Longrightarrow> Q x) \<Longrightarrow> length (filter P xs) \<le> length (filter Q xs)"
  by (induction xs) auto

lemma bg_mask_spec_unmasked_mono:
  assumes "t1 \<le> t2"
    and "bg_mask_spec smo m s z t1 = Inr m1"
    and "bg_mask_spec smo m s z t2 = Inr m2"
  shows "set (unmasked m1) \<subseteq> set (unmasked m2)
       \<and> length (unmasked m1) \<le> length (unmasked m2)"
proof -
  from assms(2) obtain t where t: "smo m s z = Inr t"
    by (auto simp add: bg_mask_spec_def split: sum.splits)
  let ?n = "min (length (mask_arr m)) (length (data t))"
  from assms(2) t have m1: "mask_arr m1 =
      map2 (\<lambda>excluded v. excluded \<or> \<not> v \<le> t1) (mask_arr m) (data t)"
    by (auto simp add: bg_mask_spec_def)
  from assms(3) t have m2: "mask_arr m2 =
      map2 (\<lambda>excluded v. excluded \<or> \<not> v \<le> t2) (mask_arr m) (data t)"
    by (auto simp add: bg_mask_spec_def)
  have len: "length (mask_arr m1) = ?n" "length (mask_arr m2) = ?n"
    by (simp_all add: m1 m2)
  have step: "\<not> mask_arr m2 ! i" if "i < ?n" "\<not> mask_arr m1 ! i" for i
    using that assms(1) by (auto simp add: m1 m2)
  have "set (unmasked m1) \<subseteq> set (unmasked m2)"
    using step by (auto simp add: unmasked_def len)
  moreover have "length (unmasked m1) \<le> length (unmasked m2)"
    unfolding unmasked_def len
    by (rule filter_length_mono) (use step in auto)
  ultimately show ?thesis ..
qed

lemma bg_mask_spec_same_failure:
  "bg_mask_spec smo m s z t1 = Inl e \<Longrightarrow> bg_mask_spec smo m s z t2 = Inl e"
  by (auto simp add: bg_mask_spec_def split: sum.splits)

section \<open>The claims\<close>

text \<open>
  C3. When the rank of the input differs from the rank the object was constructed for,
  each of \<^verbatim>\<open>smo_image\<close>, \<^verbatim>\<open>smo_probability\<close>, \<^verbatim>\<open>bg_mask\<close>,
  \<^verbatim>\<open>bg_rv\<close> and \<^verbatim>\<open>bg_probability\<close> raises the dimension-mismatch error
  and leaves the state as it found it: the log has no new entry, so no imported function
  and no query of the null distribution was reached, and there is no result.
\<close>

theorem dimension_mismatch_raises:
  assumes "image_ndim img \<noteq> ndim (self st)"
  shows "SMO_smo_image c img st =
           (Inl (DimensionMismatch (image_ndim img) (ndim (self st))), st)
       \<and> SMO_smo_probability c img st =
           (Inl (DimensionMismatch (image_ndim img) (ndim (self st))), st)
       \<and> SMO_bg_mask c img p st =
           (Inl (DimensionMismatch (image_ndim img) (ndim (self st))), st)
       \<and> SMO_bg_rv c img p st =
           (Inl (DimensionMismatch (image_ndim img) (ndim (self st))), st)
       \<and> SMO_bg_probability c img p st =
           (Inl (DimensionMismatch (image_ndim img) (ndim (self st))), st)"
  using check_image_mismatch [OF assms]
  by (simp add: smo_image_run smo_probability_run bg_mask_run bg_rv_run bg_probability_run)

text \<open>The theorem at a field of rank 2 given to an object constructed for rank 1.\<close>

theorem dimension_mismatch_raises_witness:
  "image_ndim (Plain \<lparr>shape = [2, 2], data = [1, 2, 3, 4]\<rparr>) \<noteq> ndim (self sample_state)
   \<and> SMO_smo_image sample_core (Plain \<lparr>shape = [2, 2], data = [1, 2, 3, 4]\<rparr>) sample_state =
       (Inl (DimensionMismatch 2 1), sample_state)
   \<and> SMO_bg_probability sample_core (Plain \<lparr>shape = [2, 2], data = [1, 2, 3, 4]\<rparr>) (1/2)
       sample_state = (Inl (DimensionMismatch 2 1), sample_state)"
proof -
  have h: "image_ndim (Plain \<lparr>shape = [2, 2], data = [1, 2, 3, 4]\<rparr>) \<noteq> ndim (self sample_state)"
    by (simp add: sample_state_def sample_SMO_def)
  show ?thesis
    using h dimension_mismatch_raises [OF h, of sample_core "1/2"]
    by (simp add: sample_state_def sample_SMO_def)
qed

text \<open>
  C7. The constructor stores \<^verbatim>\<open>sigma\<close>, \<^verbatim>\<open>size\<close>, the rank
  \<^verbatim>\<open>len(shape)\<close> and the null distribution that the calibration returned (and
  there is no object when the calibration raises); after each of the five operations,
  whatever its outcome, the instance is the one the operation started from.
\<close>

theorem calibration_state_unchanged:
  "(case SMO_init c sigma0 size0 shape0 random_state of
      Inl e \<Rightarrow> core_smo_rv c shape0 sigma0 size0 random_state = Inl e
    | Inr s \<Rightarrow> sigma s = sigma0 \<and> size_param s = size0 \<and> ndim s = length shape0
        \<and> core_smo_rv c shape0 sigma0 size0 random_state = Inr (smo_rv s))
   \<and> self (snd (SMO_smo_image c img st)) = self st
   \<and> self (snd (SMO_smo_probability c img st)) = self st
   \<and> self (snd (SMO_bg_mask c img p st)) = self st
   \<and> self (snd (SMO_bg_rv c img p st)) = self st
   \<and> self (snd (SMO_bg_probability c img p st)) = self st"
  by (simp add: SMO_init_def smo_image_self smo_probability_self bg_mask_self bg_rv_self
      bg_probability_self split: sum.splits)

text \<open>
  C9. A second call of \<^verbatim>\<open>smo_probability\<close> on the same field, run on the state
  the first call left behind, has the outcome of the first: the same data and mask, or
  the same exception.
\<close>

theorem smo_probability_repeatable:
  "fst (SMO_smo_probability c img (snd (SMO_smo_probability c img st))) =
   fst (SMO_smo_probability c img st)"
  by (rule smo_probability_result_self) (rule smo_probability_self)



text \<open>
  C2, as stated, at a plain array of the configured rank that has no element: the
  maximum does not exist, the check raises, and \<^verbatim>\<open>smo_image\<close> ends with that
  exception and an unchanged log, so no mask is derived and nothing reaches the core.
\<close>

theorem default_mask_zero_size_counterexample:
  "image_ndim (Plain \<lparr>shape = [0], data = []\<rparr>) = ndim (self sample_state)
   \<and> check_image (Plain \<lparr>shape = [0], data = []\<rparr>) sample_state =
       (Inl ZeroSizeReduction, sample_state)
   \<and> SMO_smo_image sample_core (Plain \<lparr>shape = [0], data = []\<rparr>) sample_state =
       (Inl ZeroSizeReduction, sample_state)"
  by (simp add: smo_image_run check_image_def bind_m_def get_self_def raise_def
      ndarray_max_def sample_state_def sample_SMO_def)

text \<open>
  C2, amended. For an input of the configured rank that, when it is a plain array, has
  at least one element: the check succeeds and leaves the state alone; a masked array
  comes back unchanged; a plain array comes back with its shape and data and with a mask
  that is set exactly at the elements at or above the maximum, which are exactly the
  elements equal to the maximum; and in each of the five operations the one field handed
  to an imported function is the field that came back from the check.
\<close>

theorem default_mask_of_plain_array:
  assumes rank: "image_ndim img = ndim (self st)"
    and pixels: "\<forall>a. img = Plain a \<longrightarrow> data a \<noteq> []"
  shows "\<exists>m. check_image img st = (Inr m, st)
       \<and> (case img of
             Masked m0 \<Rightarrow> m = m0
           | Plain a \<Rightarrow> shape m = shape a \<and> data m = data a
               \<and> length (mask_arr m) = length (data a)
               \<and> (\<forall>i<length (data a).
                     mask_arr m ! i = (Max (set (data a)) \<le> data a ! i)
                   \<and> mask_arr m ! i = (data a ! i = Max (set (data a)))))
       \<and> core_fields (snd (SMO_smo_image c img st)) = core_fields st @ [m]
       \<and> core_fields (snd (SMO_smo_probability c img st)) = core_fields st @ [m]
       \<and> core_fields (snd (SMO_bg_mask c img p st)) = core_fields st @ [m]
       \<and> core_fields (snd (SMO_bg_rv c img p st)) = core_fields st @ [m]
       \<and> core_fields (snd (SMO_bg_probability c img p st)) = core_fields st @ [m]"
proof -
  note passed = checked_field_passed [of img st _ c p]
  show ?thesis
  proof (cases img)
    case (Masked m0)
    with rank have chk: "check_image img st = (Inr m0, st)"
      by (simp add: check_image_Masked)
    from passed [OF chk] chk Masked show ?thesis by simp
  next
    case (Plain a)
    with pixels have ne: "data a \<noteq> []" by simp
    let ?m = "masked_greater_equal a (Max (set (data a)))"
    from Plain rank ne have chk: "check_image img st = (Inr ?m, st)"
      by (simp add: check_image_Plain)
    have f1: "shape ?m = shape a \<and> data ?m = data a
        \<and> length (mask_arr ?m) = length (data a)"
      by (simp add: masked_greater_equal_def)
    have f2: "\<forall>i<length (data a).
                     mask_arr ?m ! i = (Max (set (data a)) \<le> data a ! i)
                   \<and> mask_arr ?m ! i = (data a ! i = Max (set (data a)))"
      using masked_greater_equal_Max [of _ a] by simp
    have "case img of
             Masked m0 \<Rightarrow> ?m = m0
           | Plain a \<Rightarrow> shape ?m = shape a \<and> data ?m = data a
               \<and> length (mask_arr ?m) = length (data a)
               \<and> (\<forall>i<length (data a).
                     mask_arr ?m ! i = (Max (set (data a)) \<le> data a ! i)
                   \<and> mask_arr ?m ! i = (data a ! i = Max (set (data a))))"
      unfolding Plain image.case using f1 f2 by blast
    with passed [OF chk] chk show ?thesis
      by blast
  qed
qed

text \<open>The theorem at a plain 2 by 2 array whose maximum occurs twice.\<close>

theorem default_mask_of_plain_array_witness:
  "image_ndim (Plain \<lparr>shape = [2, 2], data = [1, 5, 3, 5]\<rparr>) =
     ndim (self (sample_state\<lparr>self := sample_SMO\<lparr>ndim := 2\<rparr>\<rparr>))
   \<and> check_image (Plain \<lparr>shape = [2, 2], data = [1, 5, 3, 5]\<rparr>)
       (sample_state\<lparr>self := sample_SMO\<lparr>ndim := 2\<rparr>\<rparr>) =
      (Inr \<lparr>shape = [2, 2], data = [1, 5, 3, 5], mask_arr = [False, True, False, True]\<rparr>,
       sample_state\<lparr>self := sample_SMO\<lparr>ndim := 2\<rparr>\<rparr>)
   \<and> core_fields (snd (SMO_bg_mask sample_core
        (Plain \<lparr>shape = [2, 2], data = [1, 5, 3, 5]\<rparr>) (1/2)
        (sample_state\<lparr>self := sample_SMO\<lparr>ndim := 2\<rparr>\<rparr>))) =
      [\<lparr>shape = [2, 2], data = [1, 5, 3, 5], mask_arr = [False, True, False, True]\<rparr>]"
proof -
  let ?st = "sample_state\<lparr>self := sample_SMO\<lparr>ndim := 2\<rparr>\<rparr>"
  let ?img = "Plain \<lparr>shape = [2, 2], data = [1, 5, 3, 5]\<rparr>"
  have h1: "image_ndim ?img = ndim (self ?st)"
    by (simp add: sample_state_def sample_SMO_def)
  have h2: "\<forall>a. ?img = Plain a \<longrightarrow> data a \<noteq> []"
    by auto
  have chk: "check_image ?img ?st =
      (Inr \<lparr>shape = [2, 2], data = [1, 5, 3, 5], mask_arr = [False, True, False, True]\<rparr>, ?st)"
    by (simp add: check_image_def bind_m_def get_self_def ret_def ndarray_max_def
        masked_greater_equal_def sample_state_def sample_SMO_def)
  show ?thesis
    using h1 chk default_mask_of_plain_array [OF h1 h2, of sample_core "1/2"]
    by (auto simp add: core_fields_def sample_state_def)
qed

text \<open>
  C4. For a field the check accepts and any threshold (in particular one in \<open>[0, 1]\<close>),
  \<^verbatim>\<open>bg_mask\<close> and \<^verbatim>\<open>bg_rv\<close> each add two entries to the log: one query
  \<^verbatim>\<open>ppf(threshold)\<close> of the null distribution, then the call of the imported
  function, whose last argument is the value that query returned; the outcome of the
  method is the outcome of that call. The number of \<^verbatim>\<open>ppf\<close> queries in the log
  grows by exactly one.
\<close>

theorem threshold_converted_once:
  assumes "fst (check_image img st) = Inr m"
  shows "SMO_bg_mask c img p st =
           (core_bg_mask c m (sigma (self st)) (size_param (self st))
              (ppf (smo_rv (self st)) p),
            st\<lparr>calls := calls st @
              [Call_ppf p,
               Call_bg_mask m (sigma (self st)) (size_param (self st))
                 (ppf (smo_rv (self st)) p)]\<rparr>)
       \<and> SMO_bg_rv c img p st =
           (core_bg_rv c m (sigma (self st)) (size_param (self st))
              (ppf (smo_rv (self st)) p),
            st\<lparr>calls := calls st @
              [Call_ppf p,
               Call_bg_rv m (sigma (self st)) (size_param (self st))
                 (ppf (smo_rv (self st)) p)]\<rparr>)
       \<and> length (filter is_ppf (calls (snd (SMO_bg_mask c img p st)))) =
           Suc (length (filter is_ppf (calls st)))
       \<and> length (filter is_ppf (calls (snd (SMO_bg_rv c img p st)))) =
           Suc (length (filter is_ppf (calls st)))"
  using assms by (simp add: bg_mask_run bg_rv_run)

text \<open>The theorem at a plain array of three pixels and the threshold one half.\<close>

theorem threshold_converted_once_witness:
  "fst (check_image (Plain \<lparr>shape = [3], data = [1/4, 3/4, 3/4]\<rparr>) sample_state) =
     Inr \<lparr>shape = [3], data = [1/4, 3/4, 3/4], mask_arr = [False, True, True]\<rparr>
   \<and> calls (snd (SMO_bg_mask sample_core (Plain \<lparr>shape = [3], data = [1/4, 3/4, 3/4]\<rparr>)
        (1/2) sample_state)) =
       [Call_ppf (1/2),
        Call_bg_mask \<lparr>shape = [3], data = [1/4, 3/4, 3/4], mask_arr = [False, True, True]\<rparr>
          1 3 (1/2)]
   \<and> fst (SMO_bg_mask sample_core (Plain \<lparr>shape = [3], data = [1/4, 3/4, 3/4]\<rparr>)
        (1/2) sample_state) =
       Inr \<lparr>shape = [3], data = [1/4, 3/4, 3/4], mask_arr = [False, True, True]\<rparr>"
proof -
  have h: "fst (check_image (Plain \<lparr>shape = [3], data = [1/4, 3/4, 3/4]\<rparr>) sample_state) =
     Inr \<lparr>shape = [3], data = [1/4, 3/4, 3/4], mask_arr = [False, True, True]\<rparr>"
    by (simp add: check_image_def bind_m_def get_self_def ret_def ndarray_max_def
        masked_greater_equal_def sample_state_def sample_SMO_def)
  show ?thesis
    using h threshold_converted_once [OF h, of sample_core "1/2"]
    by (simp add: sample_state_def sample_SMO_def sample_core_def uniform_rv_def
        bg_mask_spec_def)
qed

text \<open>
  C5, as stated, at a plain array of three pixels that the check accepts: the input
  comes with no mask, and the result of \<^verbatim>\<open>bg_probability\<close> excludes the pixel that
  carries the maximum, so the mask of the output is not the mask of the input.
\<close>

theorem bg_probability_plain_mask_counterexample:
  "fst (check_image (Plain \<lparr>shape = [3], data = [-1, 1/2, 3]\<rparr>) sample_state) =
     Inr \<lparr>shape = [3], data = [-1, 1/2, 3], mask_arr = [False, False, True]\<rparr>
   \<and> fst (SMO_bg_probability sample_core (Plain \<lparr>shape = [3], data = [-1, 1/2, 3]\<rparr>)
        (1/2) sample_state) =
     Inr \<lparr>shape = [3], data = [0, 1/2, 1], mask_arr = [False, False, True]\<rparr>
   \<and> image_mask (Plain \<lparr>shape = [3], data = [-1, 1/2, 3]\<rparr>) = [False, False, False]
   \<and> [False, False, True] \<noteq> image_mask (Plain \<lparr>shape = [3], data = [-1, 1/2, 3]\<rparr>)"
proof -
  have chk: "fst (check_image (Plain \<lparr>shape = [3], data = [-1, 1/2, 3]\<rparr>) sample_state) =
     Inr \<lparr>shape = [3], data = [-1, 1/2, 3], mask_arr = [False, False, True]\<rparr>"
    by (simp add: check_image_def bind_m_def get_self_def ret_def ndarray_max_def
        masked_greater_equal_def sample_state_def sample_SMO_def)
  have "fst (SMO_bg_probability sample_core (Plain \<lparr>shape = [3], data = [-1, 1/2, 3]\<rparr>)
        (1/2) sample_state) =
     Inr \<lparr>shape = [3], data = [0, 1/2, 1], mask_arr = [False, False, True]\<rparr>"
    by (simp add: bg_probability_run chk) (simp add: sample_core_def uniform_rv_def)
  with chk show ?thesis
    by (simp add: numeral_3_eq_3)
qed

text \<open>
  C5, amended. For a field the check accepts, \<^verbatim>\<open>bg_probability\<close> ends as
  \<^verbatim>\<open>bg_rv\<close> does on the same field and threshold: with the same exception, or with
  the \<^verbatim>\<open>cdf\<close> of the distribution \<^verbatim>\<open>bg_rv\<close> returned applied to every
  intensity of the input, under the input's shape. When the input is a masked array the
  result carries the input's mask unchanged; when it is a plain array the result carries
  the mask the check derived, which excludes the elements at or above the maximum.
\<close>

theorem bg_probability_is_cdf_of_bg_rv:
  assumes "fst (check_image img st) = Inr m"
  shows "fst (SMO_bg_probability c img p st) =
           (case fst (SMO_bg_rv c img p st) of
              Inl e \<Rightarrow> Inl e
            | Inr rv \<Rightarrow>
                Inr \<lparr>shape = shape m, data = map (cdf rv) (data m), mask_arr = mask_arr m\<rparr>)
       \<and> (case img of
             Masked m0 \<Rightarrow> m = m0
           | Plain a \<Rightarrow> shape m = shape a \<and> data m = data a
               \<and> mask_arr m = map (\<lambda>x. Max (set (data a)) \<le> x) (data a))"
proof -
  have "fst (SMO_bg_probability c img p st) =
           (case fst (SMO_bg_rv c img p st) of
              Inl e \<Rightarrow> Inl e
            | Inr rv \<Rightarrow>
                Inr \<lparr>shape = shape m, data = map (cdf rv) (data m), mask_arr = mask_arr m\<rparr>)"
    using assms by (simp add: bg_probability_run bg_rv_run split: sum.splits)
  moreover have "case img of
             Masked m0 \<Rightarrow> m = m0
           | Plain a \<Rightarrow> shape m = shape a \<and> data m = data a
               \<and> mask_arr m = map (\<lambda>x. Max (set (data a)) \<le> x) (data a)"
    using check_image_ok_cases [OF assms]
    by (simp add: masked_greater_equal_def split: image.splits)
  ultimately show ?thesis by simp
qed

text \<open>The theorem at a masked field of three pixels, the last one excluded.\<close>

theorem bg_probability_is_cdf_of_bg_rv_witness:
  "fst (check_image
      (Masked \<lparr>shape = [3], data = [1/4, 1/2, 2], mask_arr = [False, False, True]\<rparr>)
      sample_state) =
     Inr \<lparr>shape = [3], data = [1/4, 1/2, 2], mask_arr = [False, False, True]\<rparr>
   \<and> fst (SMO_bg_probability sample_core
        (Masked \<lparr>shape = [3], data = [1/4, 1/2, 2], mask_arr = [False, False, True]\<rparr>)
        (1/2) sample_state) =
     Inr \<lparr>shape = [3], data = [1/4, 1/2, 1], mask_arr = [False, False, True]\<rparr>"
proof -
  have h: "fst (check_image
      (Masked \<lparr>shape = [3], data = [1/4, 1/2, 2], mask_arr = [False, False, True]\<rparr>)
      sample_state) =
     Inr \<lparr>shape = [3], data = [1/4, 1/2, 2], mask_arr = [False, False, True]\<rparr>"
    by (simp add: check_image_def bind_m_def get_self_def ret_def sample_state_def
        sample_SMO_def)
  show ?thesis
    using h bg_probability_is_cdf_of_bg_rv [OF h, of sample_core "1/2"]
    by (simp add: bg_rv_run sample_state_def sample_SMO_def sample_core_def uniform_rv_def)
qed

text \<open>
  C10, as stated, at a plain array of the configured rank (here 2) that has no element:
  its values are all equal, there being none; the check raises, no mask is derived, and
  \<^verbatim>\<open>bg_mask\<close> ends with that exception and an unchanged log, so no field is handed
  to the core.
\<close>

theorem constant_field_zero_size_counterexample:
  "length (shape \<lparr>shape = [0, 3], data = []\<rparr>) =
     ndim (self (sample_state\<lparr>self := sample_SMO\<lparr>ndim := 2\<rparr>\<rparr>))
   \<and> set (data \<lparr>shape = [0, 3], data = []\<rparr>) = {}
   \<and> check_image (Plain \<lparr>shape = [0, 3], data = []\<rparr>)
       (sample_state\<lparr>self := sample_SMO\<lparr>ndim := 2\<rparr>\<rparr>) =
      (Inl ZeroSizeReduction, sample_state\<lparr>self := sample_SMO\<lparr>ndim := 2\<rparr>\<rparr>)
   \<and> SMO_bg_mask sample_core (Plain \<lparr>shape = [0, 3], data = []\<rparr>) (1/2)
       (sample_state\<lparr>self := sample_SMO\<lparr>ndim := 2\<rparr>\<rparr>) =
      (Inl ZeroSizeReduction, sample_state\<lparr>self := sample_SMO\<lparr>ndim := 2\<rparr>\<rparr>)"
  by (simp add: bg_mask_run check_image_def bind_m_def get_self_def raise_def
      ndarray_max_def sample_state_def sample_SMO_def)

text \<open>
  C10, amended. A plain array of the configured rank that has at least one element and
  whose values are all equal passes the check as a field that keeps its shape and data
  and is masked at every position: it has no unmasked position and no valid data, and
  it is this field that each of the five operations hands to the imported function.
\<close>

theorem constant_field_fully_masked:
  assumes rank: "length (shape a) = ndim (self st)"
    and pixels: "data a \<noteq> []"
    and const: "\<forall>x\<in>set (data a). \<forall>y\<in>set (data a). x = y"
  shows "\<exists>m. check_image (Plain a) st = (Inr m, st)
       \<and> shape m = shape a \<and> data m = data a
       \<and> mask_arr m = replicate (length (data a)) True
       \<and> unmasked m = [] \<and> compressed m = []
       \<and> core_fields (snd (SMO_smo_image c (Plain a) st)) = core_fields st @ [m]
       \<and> core_fields (snd (SMO_smo_probability c (Plain a) st)) = core_fields st @ [m]
       \<and> core_fields (snd (SMO_bg_mask c (Plain a) p st)) = core_fields st @ [m]
       \<and> core_fields (snd (SMO_bg_rv c (Plain a) p st)) = core_fields st @ [m]
       \<and> core_fields (snd (SMO_bg_probability c (Plain a) p st)) = core_fields st @ [m]"
proof -
  let ?m = "masked_greater_equal a (Max (set (data a)))"
  from pixels const have top: "Max (set (data a)) \<in> set (data a)"
    by simp
  from rank pixels have chk: "check_image (Plain a) st = (Inr ?m, st)"
    by (simp add: check_image_Plain)
  have "map (\<lambda>x. Max (set (data a)) \<le> x) (data a) = map (\<lambda>x. True) (data a)"
    using const top by (intro map_cong) auto
  then have mask: "mask_arr ?m = replicate (length (data a)) True"
    by (simp add: masked_greater_equal_def map_replicate_const)
  have "shape ?m = shape a \<and> data ?m = data a"
    by (simp add: masked_greater_equal_def)
  with chk mask all_True_unmasked [OF mask] all_True_compressed [OF mask]
    checked_field_passed [OF chk, of c p]
  show ?thesis
    by blast
qed

text \<open>The theorem at an all-zero field of four pixels.\<close>

theorem constant_field_fully_masked_witness:
  "length (shape \<lparr>shape = [4], data = [0, 0, 0, 0]\<rparr>) = ndim (self sample_state)
   \<and> data \<lparr>shape = [4], data = [0, 0, 0, 0]\<rparr> \<noteq> []
   \<and> set (data \<lparr>shape = [4], data = [0, 0, 0, 0]\<rparr>) = {0}
   \<and> check_image (Plain \<lparr>shape = [4], data = [0, 0, 0, 0]\<rparr>) sample_state =
       (Inr \<lparr>shape = [4], data = [0, 0, 0, 0], mask_arr = [True, True, True, True]\<rparr>,
        sample_state)
   \<and> compressed \<lparr>shape = [4], data = [0, 0, 0, 0], mask_arr = [True, True, True, True]\<rparr>
       = []"
proof -
  have h1: "length (shape \<lparr>shape = [4], data = [0, 0, 0, 0]\<rparr>) = ndim (self sample_state)"
    by (simp add: sample_state_def sample_SMO_def)
  have h2: "data \<lparr>shape = [4], data = [0, 0, 0, 0]\<rparr> \<noteq> []"
    by simp
  have h3: "\<forall>x\<in>set (data \<lparr>shape = [4], data = [0, 0, 0, 0]\<rparr>).
              \<forall>y\<in>set (data \<lparr>shape = [4], data = [0, 0, 0, 0]\<rparr>). x = y"
    by simp
  have chk: "check_image (Plain \<lparr>shape = [4], data = [0, 0, 0, 0]\<rparr>) sample_state =
       (Inr \<lparr>shape = [4], data = [0, 0, 0, 0], mask_arr = [True, True, True, True]\<rparr>,
        sample_state)"
    by (simp add: check_image_def bind_m_def get_self_def ret_def ndarray_max_def
        masked_greater_equal_def sample_state_def sample_SMO_def)
  show ?thesis
    using h1 chk constant_field_fully_masked [OF h1 h2 h3, of sample_core "1/2"]
    by auto
qed

text \<open>
  C8. With the background test as the specification describes it and a null
  distribution whose \<^verbatim>\<open>ppf\<close> does not decrease on \<open>[0, 1]\<close>: for thresholds
  \<open>0 \<le> p1 \<le> p2 \<le> 1\<close>, \<^verbatim>\<open>bg_mask\<close> on the same field either raises the same
  exception at both thresholds or returns at both, and then every position unmasked
  (classified as background) at \<open>p1\<close> is unmasked at \<open>p2\<close>, and the number of unmasked
  positions at \<open>p1\<close> is at most that at \<open>p2\<close>.
\<close>

theorem bg_mask_threshold_monotone:
  assumes spec: "core_bg_mask c = bg_mask_spec (core_smo c)"
    and quantile: "quantile_monotone (smo_rv (self st))"
    and p: "0 \<le> p1" "p1 \<le> p2" "p2 \<le> 1"
  shows "case (fst (SMO_bg_mask c img p1 st), fst (SMO_bg_mask c img p2 st)) of
           (Inr m1, Inr m2) \<Rightarrow>
             set (unmasked m1) \<subseteq> set (unmasked m2)
           \<and> length (unmasked m1) \<le> length (unmasked m2)
         | (Inl e1, Inl e2) \<Rightarrow> e1 = e2
         | _ \<Rightarrow> False"
proof (cases "fst (check_image img st)")
  case (Inl e)
  then show ?thesis by (simp add: bg_mask_run)
next
  case (Inr m)
  let ?s = "sigma (self st)" and ?z = "size_param (self st)"
  let ?t1 = "ppf (smo_rv (self st)) p1" and ?t2 = "ppf (smo_rv (self st)) p2"
  from quantile p have le: "?t1 \<le> ?t2"
    by (simp add: quantile_monotone_def)
  have r1: "fst (SMO_bg_mask c img p1 st) = bg_mask_spec (core_smo c) m ?s ?z ?t1"
    and r2: "fst (SMO_bg_mask c img p2 st) = bg_mask_spec (core_smo c) m ?s ?z ?t2"
    using Inr by (simp_all add: bg_mask_run spec)
  show ?thesis
  proof (cases "bg_mask_spec (core_smo c) m ?s ?z ?t1")
    case (Inl e)
    from bg_mask_spec_same_failure [OF this] Inl show ?thesis
      by (simp add: r1 r2)
  next
    case m1: (Inr m1)
    show ?thesis
    proof (cases "bg_mask_spec (core_smo c) m ?s ?z ?t2")
      case (Inl e)
      from bg_mask_spec_same_failure [OF this, of ?t1] m1 show ?thesis
        by simp
    next
      case m2: (Inr m2)
      from bg_mask_spec_unmasked_mono [OF le m1 m2] m1 m2 show ?thesis
        by (simp add: r1 r2)
    qed
  qed
qed

text \<open>
  The theorem at a masked field of four pixels with the identity as transform and the
  uniform distribution: one background pixel at threshold 1/5, three at 7/10.
\<close>

theorem bg_mask_threshold_monotone_witness:
  "core_bg_mask sample_core = bg_mask_spec (core_smo sample_core)
   \<and> quantile_monotone (smo_rv (self sample_state))
   \<and> (0::real) \<le> 1/5 \<and> (1/5::real) \<le> 7/10 \<and> (7/10::real) \<le> 1
   \<and> fst (SMO_bg_mask sample_core
        (Masked \<lparr>shape = [4], data = [1/10, 3/10, 3/5, 1/20],
                 mask_arr = [False, False, False, True]\<rparr>) (1/5) sample_state) =
      Inr \<lparr>shape = [4], data = [1/10, 3/10, 3/5, 1/20],
           mask_arr = [False, True, True, True]\<rparr>
   \<and> fst (SMO_bg_mask sample_core
        (Masked \<lparr>shape = [4], data = [1/10, 3/10, 3/5, 1/20],
                 mask_arr = [False, False, False, True]\<rparr>) (7/10) sample_state) =
      Inr \<lparr>shape = [4], data = [1/10, 3/10, 3/5, 1/20],
           mask_arr = [False, False, False, True]\<rparr>
   \<and> set (unmasked \<lparr>shape = [4], data = [1/10, 3/10, 3/5, 1/20],
           mask_arr = [False, True, True, True]\<rparr>)
      \<subseteq> set (unmasked \<lparr>shape = [4], data = [1/10, 3/10, 3/5, 1/20],
           mask_arr = [False, False, False, True]\<rparr>)"
proof -
  let ?img = "Masked \<lparr>shape = [4], data = [1/10, 3/10, 3/5, 1/20],
                 mask_arr = [False, False, False, True]\<rparr>"
  have h1: "core_bg_mask sample_core = bg_mask_spec (core_smo sample_core)"
    by (simp add: sample_core_def)
  have h2: "quantile_monotone (smo_rv (self sample_state))"
    by (simp add: quantile_monotone_def sample_state_def sample_SMO_def uniform_rv_def)
  have h3: "(0::real) \<le> 1/5" and h4: "(1/5::real) \<le> 7/10" and h5: "(7/10::real) \<le> 1"
    by simp_all
  have chk: "fst (check_image ?img sample_state) =
      Inr \<lparr>shape = [4], data = [1/10, 3/10, 3/5, 1/20],
           mask_arr = [False, False, False, True]\<rparr>"
    by (simp add: check_image_def bind_m_def get_self_def ret_def sample_state_def
        sample_SMO_def)
  have r1: "fst (SMO_bg_mask sample_core ?img (1/5) sample_state) =
      Inr \<lparr>shape = [4], data = [1/10, 3/10, 3/5, 1/20],
           mask_arr = [False, True, True, True]\<rparr>"
    by (simp add: bg_mask_run chk)
      (simp add: sample_core_def bg_mask_spec_def sample_state_def sample_SMO_def
        uniform_rv_def)
  have r2: "fst (SMO_bg_mask sample_core ?img (7/10) sample_state) =
      Inr \<lparr>shape = [4], data = [1/10, 3/10, 3/5, 1/20],
           mask_arr = [False, False, False, True]\<rparr>"
    by (simp add: bg_mask_run chk)
      (simp add: sample_core_def bg_mask_spec_def sample_state_def sample_SMO_def
        uniform_rv_def)
  show ?thesis
    using h1 h2 r1 r2 bg_mask_threshold_monotone [OF h1 h2 h3 h4 h5, of ?img]
    by simp
qed

end
